theory Spec2Isabelle
  imports Complex_Main
begin

section \<open>Data model\<close>

text \<open>
  The program of \<^verbatim>\<open>scripts/implementations.py\<close> works on numpy arrays. Arrays are
  mutable objects that the functions receive by reference, and \<^verbatim>\<open>clipping\<close> writes into
  its argument, so arrays live in an explicit store and the functions pass addresses.

  \<^item> Array elements are real numbers: the arithmetic of the model is exact, where the
    program rounds to floating point.
  \<^item> A one-dimensional array is a list of reals; a two-dimensional array is a list of
    rows together with its number of columns (which an array with no row still has).
    Labels \<^verbatim>\<open>y\<close> and weights \<^verbatim>\<open>w\<close> are one-dimensional, features \<^verbatim>\<open>tx\<close> two-dimensional.
  \<^item> A cell of the store is a buffer. A cell is allocated for every array that the source
    binds to a name, passes to a function, yields or returns; the unnamed temporaries
    inside one arithmetic expression are computed by value. Slices, which numpy returns
    as views, get a cell of their own: no function of the program writes through one.
  \<^item> \<^verbatim>\<open>np.random.permutation\<close> reads the process-wide generator. The generator is a
    parameter \<open>perm\<close> (the k-th draw for n rows is \<open>perm k n\<close>) and the store counts the
    draws made so far.
\<close>

record matrix =
  mcols :: nat
  mrows :: "real list list"

type_synonym addr = nat

record state =
  vecs :: "real list list"
  mats :: "matrix list"
  draws :: nat

datatype error = ValueError | IndexError | UnboundLocalError

type_synonym 'a prog = "state \<Rightarrow> error + ('a \<times> state)"

definition wf_matrix :: "matrix \<Rightarrow> bool" where
  "wf_matrix m = list_all (\<lambda>r. length r = mcols m) (mrows m)"

definition then_do :: "'a prog \<Rightarrow> ('a \<Rightarrow> 'b prog) \<Rightarrow> 'b prog" where
  "then_do m f = (\<lambda>s. case m s of Inl e \<Rightarrow> Inl e | Inr (x, s') \<Rightarrow> f x s')"

definition new_vec :: "real list \<Rightarrow> addr prog" where
  "new_vec v = (\<lambda>s. Inr (length (vecs s), s\<lparr>vecs := vecs s @ [v]\<rparr>))"

definition new_mat :: "matrix \<Rightarrow> addr prog" where
  "new_mat m = (\<lambda>s. Inr (length (mats s), s\<lparr>mats := mats s @ [m]\<rparr>))"

section \<open>The numpy operations the program uses\<close>

definition dot :: "real list \<Rightarrow> real list \<Rightarrow> real" where
  "dot a b = sum_list (map2 (*) a b)"

text \<open>\<^verbatim>\<open>a @ b\<close> on two one-dimensional arrays: the lengths must agree.\<close>

definition matmul_vv :: "real list \<Rightarrow> real list \<Rightarrow> error + real" where
  "matmul_vv a b = (if length a \<noteq> length b then Inl ValueError else Inr (dot a b))"

text \<open>\<^verbatim>\<open>m @ v\<close> on a two-dimensional and a one-dimensional array.\<close>

definition matmul_mv :: "matrix \<Rightarrow> real list \<Rightarrow> error + real list" where
  "matmul_mv m v =
     (if mcols m \<noteq> length v then Inl ValueError
      else Inr (map (\<lambda>r. dot r v) (mrows m)))"

text \<open>\<^verbatim>\<open>m.T\<close>\<close>

definition transpose_m :: "matrix \<Rightarrow> matrix" where
  "transpose_m m =
     \<lparr>mcols = length (mrows m),
      mrows = map (\<lambda>j. map (\<lambda>r. r ! j) (mrows m)) [0..<mcols m]\<rparr>"

text \<open>
  An elementwise binary operation on two one-dimensional arrays, with numpy's
  broadcasting: equal lengths, or one operand of length 1.
\<close>

definition broadcast :: "(real \<Rightarrow> real \<Rightarrow> real) \<Rightarrow> real list \<Rightarrow> real list \<Rightarrow> error + real list" where
  "broadcast f a b =
     (if length a = length b then Inr (map2 f a b)
      else if length a = 1 then Inr (map (f (hd a)) b)
      else if length b = 1 then Inr (map (\<lambda>x. f x (hd b)) a)
      else Inl ValueError)"

text \<open>\<^verbatim>\<open>h[mask] = v\<close> where the mask is an elementwise test of \<^verbatim>\<open>h\<close> itself.\<close>

definition mask_assign :: "(real \<Rightarrow> bool) \<Rightarrow> real \<Rightarrow> real list \<Rightarrow> real list" where
  "mask_assign p v h = map (\<lambda>x. if p x then v else x) h"

text \<open>\<^verbatim>\<open>a[idx]\<close> with an array of non-negative indices: a fresh array, or IndexError.\<close>

definition take_indices :: "'a list \<Rightarrow> nat list \<Rightarrow> error + 'a list" where
  "take_indices a idx =
     (if list_all (\<lambda>i. i < length a) idx then Inr (map (\<lambda>i. a ! i) idx) else Inl IndexError)"

text \<open>\<^verbatim>\<open>a[start:stop]\<close>: a negative bound counts from the end, and both are cut to the length.\<close>

definition slice_bound :: "nat \<Rightarrow> int \<Rightarrow> nat" where
  "slice_bound n i = (if i < 0 then nat (max (i + int n) 0) else min (nat i) n)"

definition py_slice :: "'a list \<Rightarrow> int \<Rightarrow> int \<Rightarrow> 'a list" where
  "py_slice a start stop =
     (let lo = slice_bound (length a) start; hi = slice_bound (length a) stop
      in take (hi - lo) (drop lo a))"

section \<open>sigmoid and clipping\<close>

definition sigmoid_real :: "real \<Rightarrow> real" where
  "sigmoid_real z = 1 / (1 + exp (- z))"

definition sigmoid :: "addr \<Rightarrow> addr prog" where
  "sigmoid z = (\<lambda>s. new_vec (map sigmoid_real (vecs s ! z)) s)"

definition abs_threshold :: real where
  "abs_threshold = 15"

definition clipping :: "addr \<Rightarrow> addr prog" where
  "clipping h = (\<lambda>s.
     let s1 = s\<lparr>vecs := (vecs s)[h := mask_assign (\<lambda>x. x > abs_threshold) abs_threshold (vecs s ! h)]\<rparr>;
         s2 = s1\<lparr>vecs := (vecs s1)[h := mask_assign (\<lambda>x. x < - abs_threshold) (- abs_threshold) (vecs s1 ! h)]\<rparr>
     in Inr (h, s2))"

section \<open>Loss and gradient\<close>

text \<open>
  \<^verbatim>\<open>np.squeeze((-y.T @ np.log(h)) + (-(1 - y).T @ np.log(1 - h)))\<close>: two products of
  one-dimensional arrays, evaluated left to right. \<^verbatim>\<open>.T\<close> of a one-dimensional array is
  the array itself, and \<^verbatim>\<open>squeeze\<close> of a scalar is that scalar.
\<close>

definition cross_entropy_sum :: "real list \<Rightarrow> real list \<Rightarrow> error + real" where
  "cross_entropy_sum y h =
     (case matmul_vv (map uminus y) (map ln h) of
        Inl e \<Rightarrow> Inl e
      | Inr a \<Rightarrow>
          (case matmul_vv (map uminus (map (\<lambda>v. 1 - v) y)) (map (\<lambda>v. ln (1 - v)) h) of
             Inl e \<Rightarrow> Inl e
           | Inr b \<Rightarrow> Inr (a + b)))"

definition np_matmul :: "addr \<Rightarrow> addr \<Rightarrow> addr prog" where
  "np_matmul tx w = (\<lambda>s.
     case matmul_mv (mats s ! tx) (vecs s ! w) of
       Inl e \<Rightarrow> Inl e
     | Inr v \<Rightarrow> new_vec v s)"

definition cross_entropy_loss :: "addr \<Rightarrow> addr \<Rightarrow> addr \<Rightarrow> real prog" where
  "cross_entropy_loss y tx w =
     then_do (np_matmul tx w) (\<lambda>a.
     then_do (clipping a) (\<lambda>c.
     then_do (sigmoid c) (\<lambda>h s.
       case cross_entropy_sum (vecs s ! y) (vecs s ! h) of
         Inl e \<Rightarrow> Inl e
       | Inr l \<Rightarrow> Inr (l, s))))"

definition cross_entropy_gradient :: "addr \<Rightarrow> addr \<Rightarrow> addr \<Rightarrow> addr prog" where
  "cross_entropy_gradient y tx w =
     then_do (np_matmul tx w) (\<lambda>a.
     then_do (sigmoid a) (\<lambda>h s.
       case broadcast (-) (vecs s ! h) (vecs s ! y) of
         Inl e \<Rightarrow> Inl e
       | Inr d \<Rightarrow>
           (case matmul_mv (transpose_m (mats s ! tx)) d of
              Inl e \<Rightarrow> Inl e
            | Inr g \<Rightarrow> new_vec g s)))"

definition regularized_cross_entropy_loss :: "addr \<Rightarrow> addr \<Rightarrow> addr \<Rightarrow> real \<Rightarrow> real prog" where
  "regularized_cross_entropy_loss y tx w lambda =
     then_do (cross_entropy_loss y tx w) (\<lambda>l s.
       case matmul_vv (vecs s ! w) (vecs s ! w) of
         Inl e \<Rightarrow> Inl e
       | Inr n \<Rightarrow> Inr (l + lambda * n, s))"

definition regularized_cross_entropy_gradient :: "addr \<Rightarrow> addr \<Rightarrow> addr \<Rightarrow> real \<Rightarrow> addr prog" where
  "regularized_cross_entropy_gradient y tx w lambda =
     then_do (cross_entropy_gradient y tx w) (\<lambda>g s.
       case broadcast (+) (vecs s ! g) (map (\<lambda>x. 2 * lambda * x) (vecs s ! w)) of
         Inl e \<Rightarrow> Inl e
       | Inr r \<Rightarrow> new_vec r s)"

section \<open>The mini-batch sampler\<close>

text \<open>
  \<^verbatim>\<open>batch_iter\<close> is a generator. Its body reads and allocates only arrays of its own, so
  the model runs it to the end and returns the batches it yields, in order, as a list of
  pairs of addresses.
\<close>

fun batch_loop :: "addr \<Rightarrow> addr \<Rightarrow> int \<Rightarrow> nat \<Rightarrow> nat list \<Rightarrow> (addr \<times> addr) list prog" where
  "batch_loop shuffled_y shuffled_tx batch_size data_size [] = (\<lambda>s. Inr ([], s))"
| "batch_loop shuffled_y shuffled_tx batch_size data_size (batch_num # rest) =
     (let start_index = int batch_num * batch_size;
          end_index = min ((int batch_num + 1) * batch_size) (int data_size)
      in if start_index \<noteq> end_index then
           then_do (\<lambda>s. new_vec (py_slice (vecs s ! shuffled_y) start_index end_index) s) (\<lambda>by.
           then_do (\<lambda>s. new_mat \<lparr>mcols = mcols (mats s ! shuffled_tx),
                                  mrows = py_slice (mrows (mats s ! shuffled_tx)) start_index end_index\<rparr> s) (\<lambda>btx.
           then_do (batch_loop shuffled_y shuffled_tx batch_size data_size rest) (\<lambda>bs s.
             Inr ((by, btx) # bs, s))))
         else batch_loop shuffled_y shuffled_tx batch_size data_size rest)"

definition batch_iter ::
  "(nat \<Rightarrow> nat \<Rightarrow> nat list) \<Rightarrow> addr \<Rightarrow> addr \<Rightarrow> int \<Rightarrow> int \<Rightarrow> bool \<Rightarrow> (addr \<times> addr) list prog" where
  "batch_iter perm y tx batch_size num_batches shuffle = (\<lambda>s.
     let data_size = length (vecs s ! y) in
     if shuffle then
       (let shuffle_indices = perm (draws s) data_size;
            s1 = s\<lparr>draws := Suc (draws s)\<rparr>
        in case take_indices (vecs s1 ! y) shuffle_indices of
             Inl e \<Rightarrow> Inl e
           | Inr sy \<Rightarrow>
               (case new_vec sy s1 of
                  Inl e \<Rightarrow> Inl e
                | Inr (shuffled_y, s2) \<Rightarrow>
                    (case take_indices (mrows (mats s2 ! tx)) shuffle_indices of
                       Inl e \<Rightarrow> Inl e
                     | Inr sx \<Rightarrow>
                         (case new_mat \<lparr>mcols = mcols (mats s2 ! tx), mrows = sx\<rparr> s2 of
                            Inl e \<Rightarrow> Inl e
                          | Inr (shuffled_tx, s3) \<Rightarrow>
                              batch_loop shuffled_y shuffled_tx batch_size data_size
                                [0..<nat num_batches] s3))))
     else batch_loop y tx batch_size data_size [0..<nat num_batches] s)"

section \<open>The training loop\<close>

text \<open>
  The two training functions differ only in the gradient and the loss they call. The
  inner loop consumes the batches of one sampling call; the outer loop runs
  \<^verbatim>\<open>range(max_iters)\<close> and keeps the local variables \<^verbatim>\<open>w\<close> and \<^verbatim>\<open>loss\<close>, the second of
  which is unbound until the first epoch has ended.
\<close>

fun batches_loop :: "(addr \<Rightarrow> addr \<Rightarrow> addr \<Rightarrow> addr prog) \<Rightarrow> real \<Rightarrow> (addr \<times> addr) list \<Rightarrow> addr \<Rightarrow> addr prog" where
  "batches_loop gradient gamma [] w = (\<lambda>s. Inr (w, s))"
| "batches_loop gradient gamma ((minibatch_y, minibatch_tx) # rest) w =
     then_do (gradient minibatch_y minibatch_tx w) (\<lambda>gr.
     then_do (\<lambda>s. case broadcast (-) (vecs s ! w) (map (\<lambda>x. gamma * x) (vecs s ! gr)) of
                     Inl e \<Rightarrow> Inl e
                   | Inr w' \<Rightarrow> new_vec w' s) (\<lambda>w'.
     batches_loop gradient gamma rest w'))"

fun epochs_loop ::
  "(nat \<Rightarrow> nat \<Rightarrow> nat list) \<Rightarrow> (addr \<Rightarrow> addr \<Rightarrow> addr \<Rightarrow> addr prog) \<Rightarrow> (addr \<Rightarrow> addr \<Rightarrow> addr \<Rightarrow> real prog) \<Rightarrow>
   addr \<Rightarrow> addr \<Rightarrow> real \<Rightarrow> int \<Rightarrow> nat \<Rightarrow> addr \<Rightarrow> real option \<Rightarrow> (addr \<times> real option) prog" where
  "epochs_loop perm gradient loss_fn y tx gamma batch_size 0 w loss = (\<lambda>s. Inr ((w, loss), s))"
| "epochs_loop perm gradient loss_fn y tx gamma batch_size (Suc n) w loss =
     then_do (batch_iter perm y tx batch_size 1 True) (\<lambda>batches.
     then_do (batches_loop gradient gamma batches w) (\<lambda>w'.
     then_do (loss_fn y tx w') (\<lambda>l.
     epochs_loop perm gradient loss_fn y tx gamma batch_size n w' (Some l))))"

definition return_w_loss :: "addr \<times> real option \<Rightarrow> (addr \<times> real) prog" where
  "return_w_loss r = (\<lambda>s.
     case snd r of
       None \<Rightarrow> Inl UnboundLocalError
     | Some loss \<Rightarrow> Inr ((fst r, loss), s))"

definition logistic_regression ::
  "(nat \<Rightarrow> nat \<Rightarrow> nat list) \<Rightarrow> addr \<Rightarrow> addr \<Rightarrow> addr \<Rightarrow> int \<Rightarrow> real \<Rightarrow> int \<Rightarrow> (addr \<times> real) prog" where
  "logistic_regression perm y tx initial_w max_iters gamma batch_size =
     then_do (epochs_loop perm cross_entropy_gradient cross_entropy_loss
                y tx gamma batch_size (nat max_iters) initial_w None)
       return_w_loss"

definition reg_logistic_regression ::
  "(nat \<Rightarrow> nat \<Rightarrow> nat list) \<Rightarrow> addr \<Rightarrow> addr \<Rightarrow> real \<Rightarrow> addr \<Rightarrow> int \<Rightarrow> real \<Rightarrow> int \<Rightarrow> (addr \<times> real) prog" where
  "reg_logistic_regression perm y tx lambda initial_w max_iters gamma batch_size =
     then_do (epochs_loop perm
                (\<lambda>by btx w. regularized_cross_entropy_gradient by btx w lambda)
                (\<lambda>y tx w. regularized_cross_entropy_loss y tx w lambda)
                y tx gamma batch_size (nat max_iters) initial_w None)
       return_w_loss"

section \<open>What the specification says, on values\<close>

text \<open>
  The definitions of this section follow the words of the specification and work on the
  values of the arrays, not on the store. The theorems compare the program with them.
\<close>

definition compatible :: "real list \<Rightarrow> matrix \<Rightarrow> real list \<Rightarrow> bool" where
  "compatible y tx w = (wf_matrix tx \<and> mcols tx = length w \<and> length (mrows tx) = length y)"

definition spec_clip :: "real \<Rightarrow> real" where
  "spec_clip z = (if z > 15 then 15 else if z < - 15 then - 15 else z)"

definition spec_score :: "matrix \<Rightarrow> real list \<Rightarrow> nat \<Rightarrow> real" where
  "spec_score tx w i = (\<Sum>j<length w. mrows tx ! i ! j * w ! j)"

definition spec_loss :: "real list \<Rightarrow> matrix \<Rightarrow> real list \<Rightarrow> real" where
  "spec_loss y tx w =
     - (\<Sum>i<length y. y ! i * ln (sigmoid_real (spec_clip (spec_score tx w i))))
     - (\<Sum>i<length y. (1 - y ! i) * ln (1 - sigmoid_real (spec_clip (spec_score tx w i))))"

definition spec_gradient :: "real list \<Rightarrow> matrix \<Rightarrow> real list \<Rightarrow> real list" where
  "spec_gradient y tx w =
     map (\<lambda>j. \<Sum>i<length y. mrows tx ! i ! j * (sigmoid_real (spec_score tx w i) - y ! i))
       [0..<length w]"

definition spec_reg_loss :: "real \<Rightarrow> real list \<Rightarrow> matrix \<Rightarrow> real list \<Rightarrow> real" where
  "spec_reg_loss lambda y tx w = spec_loss y tx w + lambda * (\<Sum>j<length w. w ! j * w ! j)"

definition spec_reg_gradient :: "real \<Rightarrow> real list \<Rightarrow> matrix \<Rightarrow> real list \<Rightarrow> real list" where
  "spec_reg_gradient lambda y tx w =
     map (\<lambda>j. spec_gradient y tx w ! j + 2 * lambda * w ! j) [0..<length w]"

text \<open>\<open>w \<leftarrow> w - gamma * gradient\<close>\<close>

definition spec_update :: "real \<Rightarrow> real list \<Rightarrow> real list \<Rightarrow> real list" where
  "spec_update gamma w g = map (\<lambda>j. w ! j - gamma * g ! j) [0..<length w]"

text \<open>
  The batches of one sampling call on the rows \<open>ys\<close>, \<open>xs\<close> (already permuted when the call
  shuffles): for each batch index in increasing order the rows from \<open>b * batch_size\<close> up to
  \<open>min ((b + 1) * batch_size) n\<close>, and nothing when the two bounds are equal.
\<close>

definition spec_batches :: "real list \<Rightarrow> matrix \<Rightarrow> int \<Rightarrow> nat \<Rightarrow> (real list \<times> matrix) list" where
  "spec_batches ys xs batch_size num_batches =
     concat (map (\<lambda>b.
       let start = int b * batch_size;
           stop = min ((int b + 1) * batch_size) (int (length ys))
       in if start = stop then []
          else [(py_slice ys start stop, \<lparr>mcols = mcols xs, mrows = py_slice (mrows xs) start stop\<rparr>)])
       [0..<num_batches])"

definition permuted_y :: "nat list \<Rightarrow> real list \<Rightarrow> real list" where
  "permuted_y idx y = map (\<lambda>i. y ! i) idx"

definition permuted_tx :: "nat list \<Rightarrow> matrix \<Rightarrow> matrix" where
  "permuted_tx idx tx = \<lparr>mcols = mcols tx, mrows = map (\<lambda>i. mrows tx ! i) idx\<rparr>"

text \<open>One epoch: an update for every batch of one sampling call, in the order yielded.\<close>

definition spec_epoch ::
  "(real list \<Rightarrow> matrix \<Rightarrow> real list \<Rightarrow> real list) \<Rightarrow> real \<Rightarrow> (real list \<times> matrix) list \<Rightarrow> real list \<Rightarrow> real list" where
  "spec_epoch grad gamma batches w =
     foldl (\<lambda>w b. spec_update gamma w (grad (fst b) (snd b) w)) w batches"

text \<open>
  \<open>n\<close> epochs from the weights \<open>w\<close>, the first of them using draw number \<open>d\<close> of the
  generator: each epoch makes one sampling call with \<open>num_batches = 1\<close>.
\<close>

primrec spec_train ::
  "(nat \<Rightarrow> nat \<Rightarrow> nat list) \<Rightarrow> (real list \<Rightarrow> matrix \<Rightarrow> real list \<Rightarrow> real list) \<Rightarrow>
   real list \<Rightarrow> matrix \<Rightarrow> real \<Rightarrow> int \<Rightarrow> nat \<Rightarrow> nat \<Rightarrow> real list \<Rightarrow> real list" where
  "spec_train perm grad y tx gamma batch_size d 0 w = w"
| "spec_train perm grad y tx gamma batch_size d (Suc n) w =
     spec_train perm grad y tx gamma batch_size (Suc d) n
       (spec_epoch grad gamma
          (spec_batches (permuted_y (perm d (length y)) y) (permuted_tx (perm d (length y)) tx) batch_size 1) w)"

text \<open>The store \<open>s'\<close> keeps every array of \<open>s\<close> as it is, and may hold new ones.\<close>

definition extends :: "state \<Rightarrow> state \<Rightarrow> bool" where
  "extends s s' = (length (vecs s) \<le> length (vecs s') \<and> take (length (vecs s)) (vecs s') = vecs s
                 \<and> length (mats s) \<le> length (mats s') \<and> take (length (mats s)) (mats s') = mats s)"

section \<open>Clipping and the sigmoid\<close>

lemma clip_twice:
  "mask_assign (\<lambda>x. x < - abs_threshold) (- abs_threshold)
     (mask_assign (\<lambda>x. x > abs_threshold) abs_threshold h) = map spec_clip h"
  by (simp add: mask_assign_def abs_threshold_def spec_clip_def)

lemma clipping_eq:
  "clipping h s = Inr (h, s\<lparr>vecs := (vecs s)[h := map spec_clip (vecs s ! h)]\<rparr>)"
proof (cases "h < length (vecs s)")
  case True
  then show ?thesis
    by (simp add: clipping_def Let_def clip_twice)
next
  case False
  then show ?thesis
    by (simp add: clipping_def Let_def list_update_beyond)
qed

text \<open>
  C3, as the specification states it, fails: the program's \<^verbatim>\<open>clipping\<close> writes into the
  array it is given and returns that same array. On a store whose only array is \<open>[20]\<close>,
  the call returns address 0, the address of its argument, and that array is then \<open>[15]\<close>.
\<close>

theorem clipping_copy_counterexample:
  "clipping 0 \<lparr>vecs = [[20]], mats = [], draws = 0\<rparr>
     = Inr (0, \<lparr>vecs = [[15]], mats = [], draws = 0\<rparr>)
   \<and> vecs \<lparr>vecs = [[15]], mats = [], draws = 0\<rparr> ! 0
     \<noteq> vecs \<lparr>vecs = [[20]], mats = [], draws = 0\<rparr> ! 0"
  by (simp add: clipping_eq spec_clip_def)

text \<open>
  C3, amended: \<^verbatim>\<open>clipping\<close> clamps in place. It returns the array it was given (the same
  object, not a copy); after the call that array holds the clamped values, and every
  other array, and the state of the generator, are as they were.
\<close>

theorem clipping_in_place:
  assumes "h < length (vecs s)"
  shows "\<exists>s'. clipping h s = Inr (h, s')
           \<and> vecs s' ! h = map spec_clip (vecs s ! h)
           \<and> length (vecs s') = length (vecs s)
           \<and> (\<forall>a. a \<noteq> h \<longrightarrow> vecs s' ! a = vecs s ! a)
           \<and> mats s' = mats s \<and> draws s' = draws s"
  using assms by (simp add: clipping_eq)

theorem clipping_in_place_witness:
  "(0::nat) < length (vecs \<lparr>vecs = [[20, - 3]], mats = [], draws = 0\<rparr>)
   \<and> (\<exists>s'. clipping 0 \<lparr>vecs = [[20, - 3]], mats = [], draws = 0\<rparr> = Inr (0, s')
           \<and> vecs s' ! 0 = [15, - 3])"
  using clipping_in_place [of 0 "\<lparr>vecs = [[20, - 3]], mats = [], draws = 0\<rparr>"]
  by (auto simp: spec_clip_def)

text \<open>
  C4: the array that \<^verbatim>\<open>clipping\<close> returns has the length of its argument, and its element
  at every position \<open>i\<close> is 15 where the argument had more than 15, -15 where it had less
  than -15, and the argument's element otherwise.
\<close>

theorem clipping_elements:
  assumes "h < length (vecs s)" and "i < length (vecs s ! h)"
  shows "\<exists>r s'. clipping h s = Inr (r, s')
           \<and> length (vecs s' ! r) = length (vecs s ! h)
           \<and> vecs s' ! r ! i =
               (if vecs s ! h ! i > 15 then 15
                else if vecs s ! h ! i < - 15 then - 15
                else vecs s ! h ! i)"
  using assms by (simp add: clipping_eq spec_clip_def)

theorem clipping_elements_witness:
  "(0::nat) < length (vecs \<lparr>vecs = [[2, - 40, 16]], mats = [], draws = 0\<rparr>)
   \<and> (1::nat) < length (vecs \<lparr>vecs = [[2, - 40, 16]], mats = [], draws = 0\<rparr> ! 0)
   \<and> (\<exists>r s'. clipping 0 \<lparr>vecs = [[2, - 40, 16]], mats = [], draws = 0\<rparr> = Inr (r, s')
           \<and> length (vecs s' ! r) = 3 \<and> vecs s' ! r ! 1 = - 15)"
  using clipping_elements [of 0 "\<lparr>vecs = [[2, - 40, 16]], mats = [], draws = 0\<rparr>" 1]
  by (auto simp: numeral_3_eq_3)

lemma exp_15_bound: "exp (15::real) < 9999999"
proof -
  have e8: "exp (1/8 :: real) \<le> 73/64"
    using exp_bound [of "1/8 :: real"] by (simp add: power2_eq_square)
  have "exp (15::real) = exp (1/8) ^ 120"
    by (simp add: exp_of_nat_mult [symmetric])
  also have "\<dots> \<le> (73/64) ^ 120"
    using e8 by (intro power_mono) simp_all
  also have "\<dots> < (9999999::real)"
    by (simp add: field_simps)
  finally show ?thesis .
qed

lemma sigmoid_clip_bounds:
  "1 / 10 ^ 7 < sigmoid_real (spec_clip z) \<and> sigmoid_real (spec_clip z) < 1 - 1 / 10 ^ 7"
proof -
  define c where "c = spec_clip z"
  have c: "- 15 \<le> c" "c \<le> 15"
    by (simp_all add: c_def spec_clip_def)
  have up: "exp (- c) \<le> exp 15" using c by simp
  have lo: "exp (- 15) \<le> exp (- c)" using c by simp
  have pos: "0 < exp (- c)" by simp
  have "exp (- c) < 9999999" using up exp_15_bound by linarith
  then have A: "1 / 10 ^ 7 < 1 / (1 + exp (- c))"
    using pos by (simp add: less_divide_eq divide_less_eq add_pos_pos)
  have "exp (-15::real) = 1 / exp 15" by (simp add: exp_minus field_simps)
  also have "\<dots> > 1 / 9999999" using exp_15_bound by (simp add: field_simps)
  finally have "1 / 9999999 < exp (- c)" using lo by linarith
  then have B: "1 / (1 + exp (- c)) < 1 - 1 / 10 ^ 7"
    using pos by (simp add: less_divide_eq divide_less_eq add_pos_pos)
  show ?thesis using A B by (simp add: sigmoid_real_def c_def)
qed

text \<open>
  C6: \<^verbatim>\<open>sigmoid(clipping(z))\<close> returns an array as long as \<open>z\<close> whose every element lies
  strictly between \<open>10\<^sup>-\<^sup>7\<close> and \<open>1 - 10\<^sup>-\<^sup>7\<close>; so none is 0 or 1. (Over the reals:
  \<open>exp 15 < 9999999\<close>.)
\<close>

theorem sigmoid_clipping_open_interval:
  assumes "z < length (vecs s)"
  shows "\<exists>c s1 r s2. clipping z s = Inr (c, s1) \<and> sigmoid c s1 = Inr (r, s2)
           \<and> length (vecs s2 ! r) = length (vecs s ! z)
           \<and> (\<forall>i<length (vecs s ! z).
                 1 / 10 ^ 7 < vecs s2 ! r ! i \<and> vecs s2 ! r ! i < 1 - 1 / 10 ^ 7
                 \<and> vecs s2 ! r ! i \<noteq> 0 \<and> vecs s2 ! r ! i \<noteq> 1)"
proof -
  let ?s1 = "s\<lparr>vecs := (vecs s)[z := map spec_clip (vecs s ! z)]\<rparr>"
  let ?h = "map sigmoid_real (map spec_clip (vecs s ! z))"
  let ?s2 = "?s1\<lparr>vecs := vecs ?s1 @ [?h]\<rparr>"
  have 1: "clipping z s = Inr (z, ?s1)" by (rule clipping_eq)
  have 2: "sigmoid z ?s1 = Inr (length (vecs s), ?s2)"
    using assms by (simp add: sigmoid_def new_vec_def)
  have 3: "vecs ?s2 ! length (vecs s) = ?h"
    by (simp add: nth_append)
  have 4: "1 / 10 ^ 7 < ?h ! i \<and> ?h ! i < 1 - 1 / 10 ^ 7 \<and> ?h ! i \<noteq> 0 \<and> ?h ! i \<noteq> 1"
    if "i < length (vecs s ! z)" for i
    using that sigmoid_clip_bounds [of "vecs s ! z ! i"] by simp
  have 5: "length (vecs ?s2 ! length (vecs s)) = length (vecs s ! z)"
    unfolding 3 by simp
  have 6: "\<forall>i<length (vecs s ! z).
             1 / 10 ^ 7 < vecs ?s2 ! length (vecs s) ! i \<and> vecs ?s2 ! length (vecs s) ! i < 1 - 1 / 10 ^ 7
             \<and> vecs ?s2 ! length (vecs s) ! i \<noteq> 0 \<and> vecs ?s2 ! length (vecs s) ! i \<noteq> 1"
    unfolding 3 using 4 by blast
  show ?thesis
    using 1 2 5 6 by blast
qed

theorem sigmoid_clipping_open_interval_witness:
  "(0::nat) < length (vecs \<lparr>vecs = [[1000]], mats = [], draws = 0\<rparr>)
   \<and> (\<exists>c s1 r s2. clipping 0 \<lparr>vecs = [[1000]], mats = [], draws = 0\<rparr> = Inr (c, s1)
         \<and> sigmoid c s1 = Inr (r, s2)
         \<and> 1 / 10 ^ 7 < vecs s2 ! r ! 0 \<and> vecs s2 ! r ! 0 < 1 - 1 / 10 ^ 7)"
proof -
  have "(0::nat) < length (vecs \<lparr>vecs = [[1000]], mats = [], draws = 0\<rparr>)" by simp
  from sigmoid_clipping_open_interval [OF this]
  show ?thesis by fastforce
qed

end
